theory Spec2Isabelle
  imports Main
begin

section \<open>Data model\<close>

text \<open>
  Text is modelled as \<^typ>\<open>string\<close>, read as the UTF-8 bytes of the JavaScript string, so
  that "byte-identical" output is equality of lists. The records follow the TypeScript
  interfaces of the views; field names carry a prefix where several interfaces use the
  same name (\<open>id\<close>, \<open>userId\<close>, \<open>size\<close>).
\<close>

record User =
  user_id :: string
  email :: string
  displayName :: "string option"

record List =
  list_id :: string
  title :: string
  description :: string
  templateType :: string
  language :: string
  isShared :: bool
  shareToken :: string
  list_userId :: string

record UploadedImage =
  image_id :: string
  filename :: string
  url :: string
  image_size :: nat

text \<open>
  A list item as the views hold it. \<open>item_listId\<close> is the \<open>listId\<close> column of the stored
  row (\<open>addItem\<close> writes it, the queries filter on it). \<open>orderIndex\<close> is a JavaScript
  number that the code only ever sets to an array length or an array index, hence a
  natural number here.
\<close>

record ListItem =
  item_id :: string
  item_listId :: string
  content :: string
  isChecked :: bool
  orderIndex :: nat

section \<open>Message serializer\<close>

text \<open>Decimal rendering of \<open>index + 1\<close> inside a template literal.\<close>

fun show_nat :: "nat \<Rightarrow> string" where
  "show_nat n =
     (if n < 10 then [''0123456789'' ! n]
      else show_nat (n div 10) @ [''0123456789'' ! (n mod 10)])"

declare show_nat.simps [simp del]

text \<open>The glyphs of the source, as UTF-8: U+2705, U+2610 and U+1F4F8.\<close>

definition glyph_checked :: string where
  "glyph_checked = [CHR 0xE2, CHR 0x9C, CHR 0x85]"

definition glyph_unchecked :: string where
  "glyph_unchecked = [CHR 0xE2, CHR 0x98, CHR 0x90]"

definition glyph_camera :: string where
  "glyph_camera = [CHR 0xF0, CHR 0x9F, CHR 0x93, CHR 0xB8]"

text \<open>
  The escape \<open>\n\<close> of the shared view's template literals is the line feed; the escape
  \<open>\\n\<close> of the list editor's template literals is a backslash followed by the letter n.
\<close>

definition line_feed :: string where
  "line_feed = [CHR 0x0A]"

definition backslash_n :: string where
  "backslash_n = [CHR 0x5C, CHR 0x6E]"

text \<open>\<open>Number(item.isChecked) > 0 ? checked : unchecked\<close> on a boolean.\<close>

definition checkbox :: "ListItem \<Rightarrow> string" where
  "checkbox item = (if isChecked item then glyph_checked else glyph_unchecked)"

subsection \<open>Shared view: \<open>generateWhatsAppMessage\<close> of \<open>SharedList\<close>\<close>

text \<open>The two \<open>forEach\<close> loops, with the message built so far and the running index.\<close>

fun shared_items_forEach :: "string \<Rightarrow> nat \<Rightarrow> ListItem list \<Rightarrow> string" where
  "shared_items_forEach message index [] = message"
| "shared_items_forEach message index (item # rest) =
     shared_items_forEach
       (message @ checkbox item @ '' '' @ show_nat (index + 1) @ ''. '' @ content item @ line_feed)
       (index + 1) rest"

fun shared_images_forEach :: "string \<Rightarrow> nat \<Rightarrow> UploadedImage list \<Rightarrow> string" where
  "shared_images_forEach message index [] = message"
| "shared_images_forEach message index (img # rest) =
     shared_images_forEach
       (message @ show_nat (index + 1) @ ''. '' @ url img @ line_feed)
       (index + 1) rest"

definition generateWhatsAppMessage_shared ::
  "List option \<Rightarrow> ListItem list \<Rightarrow> UploadedImage list \<Rightarrow> string" where
  "generateWhatsAppMessage_shared lst its imgs =
     (case lst of
        None \<Rightarrow> []
      | Some l \<Rightarrow>
          (let message = ''*'' @ title l @ ''*'' @ line_feed;
               message = (if description l \<noteq> []
                          then message @ ''_'' @ description l @ ''_'' @ line_feed
                          else message);
               message = message @ line_feed;
               message = shared_items_forEach message 0 its;
               message = (if length imgs > 0
                          then shared_images_forEach
                                 (message @ line_feed @ glyph_camera @ '' *Images:*'' @ line_feed)
                                 0 imgs
                          else message)
           in message @ line_feed @ ''_Shared via WhatsApp List Manager_''))"

subsection \<open>List editor: \<open>generateWhatsAppMessage\<close> of \<open>ListEditor\<close>\<close>

fun editor_items_forEach :: "string \<Rightarrow> nat \<Rightarrow> ListItem list \<Rightarrow> string" where
  "editor_items_forEach message index [] = message"
| "editor_items_forEach message index (item # rest) =
     editor_items_forEach
       (message @ checkbox item @ '' '' @ show_nat (index + 1) @ ''. '' @ content item @ backslash_n)
       (index + 1) rest"

fun editor_images_forEach :: "string \<Rightarrow> nat \<Rightarrow> UploadedImage list \<Rightarrow> string" where
  "editor_images_forEach message index [] = message"
| "editor_images_forEach message index (img # rest) =
     editor_images_forEach
       (message @ show_nat (index + 1) @ ''. '' @ url img @ backslash_n)
       (index + 1) rest"

definition generateWhatsAppMessage_editor ::
  "List option \<Rightarrow> ListItem list \<Rightarrow> UploadedImage list \<Rightarrow> string" where
  "generateWhatsAppMessage_editor lst its imgs =
     (case lst of
        None \<Rightarrow> []
      | Some l \<Rightarrow>
          (let message = ''*'' @ title l @ ''*'' @ backslash_n;
               message = (if description l \<noteq> []
                          then message @ ''_'' @ description l @ ''_'' @ backslash_n
                          else message);
               message = message @ backslash_n;
               message = editor_items_forEach message 0 its;
               message = (if length imgs > 0
                          then editor_images_forEach
                                 (message @ backslash_n @ glyph_camera @ '' *Images:*'' @ backslash_n)
                                 0 imgs
                          else message)
           in message @ backslash_n @ ''_Created with WhatsApp List Manager_''))"

section \<open>The external store and the effects of an operation\<close>

datatype role = Owner | Editor | Viewer

text \<open>
  A row of \<open>listCollaborators\<close>, with the columns \<open>inviteCollaborator\<close> writes. The
  \<open>status\<close> column is the string the code stores.
\<close>

record Collaborator =
  collab_id :: string
  collab_listId :: string
  collab_userId :: string
  userEmail :: string
  userDisplayName :: string
  role :: role
  status :: string
  invitedBy :: string
  joinedAt :: string

text \<open>A row of \<open>listImages\<close>: the image and the columns \<open>handleImagesChange\<close> adds.\<close>

record ImageRow = UploadedImage +
  image_listId :: string
  image_userId :: string
  image_createdAt :: string

text \<open>\<open>Partial<List>\<close> and \<open>Partial<ListItem>\<close>: every field may be absent.\<close>

record ListUpdates =
  upd_list_id :: "string option"
  upd_title :: "string option"
  upd_description :: "string option"
  upd_templateType :: "string option"
  upd_language :: "string option"
  upd_isShared :: "bool option"
  upd_shareToken :: "string option"
  upd_list_userId :: "string option"

record ItemUpdates =
  upd_item_id :: "string option"
  upd_content :: "string option"
  upd_isChecked :: "bool option"
  upd_orderIndex :: "nat option"

text \<open>The object spreads \<open>{ ...list, ...updates }\<close> and \<open>{ ...item, ...updates }\<close>.\<close>

definition spread_list :: "List \<Rightarrow> ListUpdates \<Rightarrow> List" where
  "spread_list l u =
     \<lparr> list_id = (case upd_list_id u of Some v \<Rightarrow> v | None \<Rightarrow> list_id l),
       title = (case upd_title u of Some v \<Rightarrow> v | None \<Rightarrow> title l),
       description = (case upd_description u of Some v \<Rightarrow> v | None \<Rightarrow> description l),
       templateType = (case upd_templateType u of Some v \<Rightarrow> v | None \<Rightarrow> templateType l),
       language = (case upd_language u of Some v \<Rightarrow> v | None \<Rightarrow> language l),
       isShared = (case upd_isShared u of Some v \<Rightarrow> v | None \<Rightarrow> isShared l),
       shareToken = (case upd_shareToken u of Some v \<Rightarrow> v | None \<Rightarrow> shareToken l),
       list_userId = (case upd_list_userId u of Some v \<Rightarrow> v | None \<Rightarrow> list_userId l) \<rparr>"

definition spread_item :: "ListItem \<Rightarrow> ItemUpdates \<Rightarrow> ListItem" where
  "spread_item item u =
     \<lparr> item_id = (case upd_item_id u of Some v \<Rightarrow> v | None \<Rightarrow> item_id item),
       item_listId = item_listId item,
       content = (case upd_content u of Some v \<Rightarrow> v | None \<Rightarrow> content item),
       isChecked = (case upd_isChecked u of Some v \<Rightarrow> v | None \<Rightarrow> isChecked item),
       orderIndex = (case upd_orderIndex u of Some v \<Rightarrow> v | None \<Rightarrow> orderIndex item) \<rparr>"

text \<open>
  The store is external. A mutating call is recorded as a value; whether the awaited call
  resolves or rejects is the store's answer, taken as a parameter of every operation.
  Time stamps and random identifiers are parameters as well.
\<close>

datatype db_call =
    ListsUpdate string ListUpdates string
  | ListItemsCreate ListItem string
  | ListItemsUpdate string ItemUpdates
  | ListItemsDelete string
  | ListImagesCreate ImageRow
  | ListImagesDelete string
  | ListCollaboratorsCreate Collaborator
  | ListCollaboratorsUpdate string role
  | ListCollaboratorsDelete string
  | ListsDelete string

datatype reply = Resolved | Rejected

type_synonym store = "db_call \<Rightarrow> reply"

text \<open>\<open>Toast title description destructive\<close>: a call of \<open>toast\<close>.\<close>

datatype toast = Toast string string bool

datatype event =
    Db db_call
  | Notify toast
  | ConsoleError string
  | Navigate string

text \<open>The tables a query reads, and which collections currently answer queries.\<close>

record db =
  lists :: "List list"
  listItems :: "ListItem list"
  listImages :: "ImageRow list"
  listCollaborators :: "Collaborator list"

datatype collection = Lists | ListItems | ListImages | ListCollaborators

section \<open>The shared-list view\<close>

record SharedList =
  user :: "User option"
  list :: "List option"
  items :: "ListItem list"
  images :: "UploadedImage list"
  collaborators :: "Collaborator list"
  userRole :: "role option"
  loading :: bool
  authLoading :: bool

text \<open>
  The state in which \<open>loadSharedList\<close> first runs: nothing is loaded yet, and the
  authentication state has settled (the effect calls it only when \<open>authLoading\<close> is false).
\<close>

definition initial :: "User option \<Rightarrow> SharedList" where
  "initial u =
     \<lparr> user = u, list = None, items = [], images = [], collaborators = [],
       userRole = None, loading = True, authLoading = False \<rparr>"

text \<open>
  The role computation of \<open>loadSharedList\<close> ("Determine user role"). The role of a
  collaborator row is a non-empty string, so \<open>collaboration?.role || 'viewer'\<close> is the row's
  role when \<open>find\<close> returns a row and \<open>'viewer'\<close> when it returns none.
\<close>

definition determineRole :: "User option \<Rightarrow> List \<Rightarrow> Collaborator list \<Rightarrow> role" where
  "determineRole usr sharedList collaboratorsData =
     (case usr of
        Some u \<Rightarrow>
          if list_userId sharedList = user_id u then Owner
          else (case find (\<lambda>c. collab_userId c = user_id u) collaboratorsData of
                  Some collaboration \<Rightarrow> role collaboration
                | None \<Rightarrow> Viewer)
      | None \<Rightarrow> Viewer)"

text \<open>
  \<open>loadSharedList\<close>. The token is the route parameter (absent or a string). The four
  queries filter by equality on the named columns; \<open>orderBy orderIndex asc\<close> is a stable
  sort and \<open>orderBy createdAt asc\<close> keeps the table's insertion order. A query on a
  collection that does not answer rejects, and the \<open>catch\<close> block runs; \<open>finally\<close> clears
  \<open>loading\<close> on every path that entered \<open>try\<close>.
\<close>

definition load_failed :: "SharedList \<Rightarrow> event list \<times> SharedList" where
  "load_failed s =
     ([ConsoleError ''Failed to load shared list:'',
       Notify (Toast ''Error'' ''Failed to load shared list'' True),
       Navigate ''/''],
      s\<lparr>loading := False\<rparr>)"

definition loadSharedList ::
  "(collection \<Rightarrow> bool) \<Rightarrow> db \<Rightarrow> string option \<Rightarrow> SharedList \<Rightarrow> event list \<times> SharedList" where
  "loadSharedList answers d token s =
     (if token = None \<or> token = Some [] then
        ([Notify (Toast ''Error'' ''Invalid share link'' True), Navigate ''/''], s)
      else if \<not> answers Lists then load_failed s
      else
        (case filter (\<lambda>l. Some (shareToken l) = token \<and> isShared l) (lists d) of
           [] \<Rightarrow>
             ([Notify (Toast ''Error'' ''Shared list not found or no longer available'' True),
               Navigate ''/''],
              s\<lparr>loading := False\<rparr>)
         | sharedList # _ \<Rightarrow>
             if \<not> answers ListItems then load_failed s
             else if \<not> answers ListImages then load_failed s
             else if \<not> answers ListCollaborators then load_failed s
             else
               (let itemsData =
                      sort_key orderIndex
                        (filter (\<lambda>i. item_listId i = list_id sharedList) (listItems d));
                    imagesData =
                      map UploadedImage.truncate
                        (filter (\<lambda>i. image_listId i = list_id sharedList) (listImages d));
                    collaboratorsData =
                      filter (\<lambda>c. collab_listId c = list_id sharedList) (listCollaborators d);
                    r = determineRole (user s) sharedList collaboratorsData
                in ([], s\<lparr>list := Some sharedList, items := itemsData, images := imagesData,
                          collaborators := collaboratorsData, userRole := Some r,
                          loading := False\<rparr>))))"


definition canEdit :: "SharedList \<Rightarrow> bool" where
  "canEdit s = (userRole s = Some Owner \<or> userRole s = Some Editor)"

definition canManageSettings :: "SharedList \<Rightarrow> bool" where
  "canManageSettings s = (userRole s = Some Owner)"

text \<open>
  The mutations of the view. Each returns the events it caused, in order, and the view
  state it leaves. A guard that fails returns at once: no event, the same state.
\<close>

definition updateList :: "store \<Rightarrow> string \<Rightarrow> SharedList \<Rightarrow> ListUpdates \<Rightarrow> event list \<times> SharedList" where
  "updateList st now s updates =
     (case list s of
        None \<Rightarrow> ([], s)
      | Some l \<Rightarrow>
          if \<not> canManageSettings s then ([], s)
          else
            (let call = ListsUpdate (list_id l) updates now in
             case st call of
               Resolved \<Rightarrow>
                 ([Db call, Notify (Toast ''Success'' ''List updated successfully'' False)],
                  s\<lparr>list := Some (spread_list l updates)\<rparr>)
             | Rejected \<Rightarrow>
                 ([Db call, ConsoleError ''Failed to update list:'',
                   Notify (Toast ''Error'' ''Failed to update list'' True)], s)))"

definition addItem :: "store \<Rightarrow> string \<Rightarrow> string \<Rightarrow> SharedList \<Rightarrow> event list \<times> SharedList" where
  "addItem st newId now s =
     (case list s of
        None \<Rightarrow> ([], s)
      | Some l \<Rightarrow>
          if \<not> canEdit s then ([], s)
          else
            (let newItem = \<lparr> item_id = newId, item_listId = list_id l, content = [],
                             isChecked = False, orderIndex = length (items s) \<rparr>;
                 call = ListItemsCreate newItem now in
             case st call of
               Resolved \<Rightarrow> ([Db call], s\<lparr>items := items s @ [newItem]\<rparr>)
             | Rejected \<Rightarrow>
                 ([Db call, ConsoleError ''Failed to add item:'',
                   Notify (Toast ''Error'' ''Failed to add item'' True)], s)))"

definition updateItem :: "store \<Rightarrow> SharedList \<Rightarrow> string \<Rightarrow> ItemUpdates \<Rightarrow> event list \<times> SharedList" where
  "updateItem st s itemId updates =
     (if \<not> canEdit s then ([], s)
      else
        (let call = ListItemsUpdate itemId updates in
         case st call of
           Resolved \<Rightarrow>
             ([Db call],
              s\<lparr>items := map (\<lambda>item. if item_id item = itemId then spread_item item updates
                                     else item) (items s)\<rparr>)
         | Rejected \<Rightarrow>
             ([Db call, ConsoleError ''Failed to update item:'',
               Notify (Toast ''Error'' ''Failed to update item'' True)], s)))"

definition removeItem :: "store \<Rightarrow> SharedList \<Rightarrow> string \<Rightarrow> event list \<times> SharedList" where
  "removeItem st s itemId =
     (if \<not> canEdit s then ([], s)
      else
        (let call = ListItemsDelete itemId in
         case st call of
           Resolved \<Rightarrow> ([Db call], s\<lparr>items := filter (\<lambda>item. item_id item \<noteq> itemId) (items s)\<rparr>)
         | Rejected \<Rightarrow>
             ([Db call, ConsoleError ''Failed to remove item:'',
               Notify (Toast ''Error'' ''Failed to remove item'' True)], s)))"

text \<open>
  The two \<open>for\<close> loops of \<open>handleImagesChange\<close> await one call after the other; the first
  call that rejects throws, and the calls after it are never made.
\<close>

fun await_all :: "store \<Rightarrow> db_call list \<Rightarrow> event list \<times> bool" where
  "await_all st [] = ([], True)"
| "await_all st (call # rest) =
     (case st call of
        Rejected \<Rightarrow> ([Db call], False)
      | Resolved \<Rightarrow> (case await_all st rest of (evs, ok) \<Rightarrow> (Db call # evs, ok)))"

definition handleImagesChange ::
  "store \<Rightarrow> string \<Rightarrow> SharedList \<Rightarrow> UploadedImage list \<Rightarrow> event list \<times> SharedList" where
  "handleImagesChange st now s newImages =
     (case (list s, user s) of
        (Some l, Some u) \<Rightarrow>
          if \<not> canEdit s then ([], s)
          else
            (let imagesToAdd =
                   filter (\<lambda>newImg. find (\<lambda>existingImg. image_id existingImg = image_id newImg)
                                      (images s) = None) newImages;
                 imagesToRemove =
                   filter (\<lambda>existingImg. find (\<lambda>newImg. image_id newImg = image_id existingImg)
                                           newImages = None) (images s);
                 calls =
                   map (\<lambda>img. ListImagesCreate
                          (UploadedImage.extend img
                             \<lparr> image_listId = list_id l, image_userId = user_id u,
                               image_createdAt = now \<rparr>)) imagesToAdd
                   @ map (\<lambda>img. ListImagesDelete (image_id img)) imagesToRemove
             in case await_all st calls of
                  (evs, True) \<Rightarrow> (evs, s\<lparr>images := newImages\<rparr>)
                | (evs, False) \<Rightarrow>
                    (evs @ [ConsoleError ''Failed to update images:'',
                            Notify (Toast ''Error'' ''Failed to update images'' True)], s))
      | _ \<Rightarrow> ([], s))"

section \<open>The image upload component\<close>

record File =
  file_name :: string
  file_type :: string
  file_size :: nat

text \<open>
  The four \<open>alert\<close> calls of \<open>handleFileSelect\<close>:
  \<open>Maximum <maxImages> images allowed\<close>,
  \<open>Total size would exceed <formatFileSize(maxTotalSize)> limit\<close>,
  \<open><file.name> is not an image file\<close> and \<open>Upload failed. Please try again.\<close>
  Each carries the value the message is built from.
\<close>

datatype alert =
    MaximumImagesAllowed nat
  | TotalSizeWouldExceed nat
  | NotAnImageFile string
  | UploadFailed

datatype upload_event =
    Alert alert
  | StorageUpload File string
  | SetUploading bool
  | OnImagesChange "UploadedImage list"
  | UploadConsoleError
  | ClearInput

text \<open>
  Sizes are byte counts, but the code adds them as JavaScript numbers (IEEE 754 doubles):
  the sum of two numbers is the exact sum rounded to 53 significant bits, to nearest, ties
  to the even significand. \<open>bit_length n\<close> is the number of binary digits of \<open>n\<close>;
  \<open>round53\<close> is that rounding on natural numbers (exact below \<open>2 ^ 53\<close>); \<open>js_add\<close> is
  \<open>+\<close> on numbers. Sums that leave the finite range (\<open>2 ^ 1024\<close> and above, \<open>Infinity\<close> in
  the code) stay above every finite limit in both, so the comparisons agree there too.
\<close>

fun bit_length :: "nat \<Rightarrow> nat" where
  "bit_length n = (if n = 0 then 0 else Suc (bit_length (n div 2)))"

declare bit_length.simps [simp del]

definition round53 :: "nat \<Rightarrow> nat" where
  "round53 n =
     (if n < 2 ^ 53 then n
      else
        (let e = bit_length n - 53;
             q = n div 2 ^ e;
             r = n mod 2 ^ e in
         if 2 * r > 2 ^ e \<or> (2 * r = 2 ^ e \<and> odd q) then (q + 1) * 2 ^ e else q * 2 ^ e))"

definition js_add :: "nat \<Rightarrow> nat \<Rightarrow> nat" where
  "js_add a b = round53 (a + b)"

text \<open>\<open>getTotalSize\<close> and the \<open>reduce\<close> over the selected files.\<close>

definition getTotalSize :: "UploadedImage list \<Rightarrow> nat" where
  "getTotalSize imgs = foldl (\<lambda>total img. js_add total (image_size img)) 0 imgs"

definition newFilesSize :: "File list \<Rightarrow> nat" where
  "newFilesSize files = foldl (\<lambda>total file. js_add total (file_size file)) 0 files"

text \<open>
  The upload loop. \<open>storage file path\<close> is the blob store's answer to the upload: the public
  URL, or \<open>None\<close> when the upload throws. \<open>fresh k\<close> is the identifier drawn for the
  \<open>k\<close>-th file of the batch. The result is the images collected, the events, and whether
  the loop ran to its end. The progress display (\<open>setUploadProgress\<close>) is presentation
  state and is left out.
\<close>

fun upload_loop ::
  "(File \<Rightarrow> string \<Rightarrow> string option) \<Rightarrow> (nat \<Rightarrow> string) \<Rightarrow> nat \<Rightarrow> File list \<Rightarrow>
   UploadedImage list \<Rightarrow> UploadedImage list \<times> upload_event list \<times> bool" where
  "upload_loop storage fresh k [] newImages = (newImages, [], True)"
| "upload_loop storage fresh k (file # rest) newImages =
     (if take 6 (file_type file) \<noteq> ''image/'' then
        (case upload_loop storage fresh (k + 1) rest newImages of
           (imgs, evs, ok) \<Rightarrow> (imgs, Alert (NotAnImageFile (file_name file)) # evs, ok))
      else
        (let fileId = fresh k;
             path = ''list-images/'' @ fileId @ ''_'' @ file_name file in
         case storage file path of
           None \<Rightarrow> (newImages, [StorageUpload file path], False)
         | Some publicUrl \<Rightarrow>
             (case upload_loop storage fresh (k + 1) rest
                     (newImages @ [\<lparr> image_id = fileId, filename = file_name file,
                                     url = publicUrl, image_size = file_size file \<rparr>]) of
                (imgs, evs, ok) \<Rightarrow> (imgs, StorageUpload file path # evs, ok))))"

definition handleFileSelect ::
  "(File \<Rightarrow> string \<Rightarrow> string option) \<Rightarrow> (nat \<Rightarrow> string) \<Rightarrow> UploadedImage list \<Rightarrow>
   nat \<Rightarrow> nat \<Rightarrow> File list \<Rightarrow> upload_event list" where
  "handleFileSelect storage fresh imgs maxImages maxTotalSize files =
     (if length files = 0 then []
      else
        (let currentTotalSize = getTotalSize imgs;
             filesSize = newFilesSize files in
         if length imgs + length files > maxImages then
           [Alert (MaximumImagesAllowed maxImages)]
         else if js_add currentTotalSize filesSize > maxTotalSize then
           [Alert (TotalSizeWouldExceed maxTotalSize)]
         else
           (case upload_loop storage fresh 0 files [] of
              (newImages, evs, True) \<Rightarrow>
                [SetUploading True] @ evs @ [OnImagesChange (imgs @ newImages)]
                @ [SetUploading False, ClearInput]
            | (newImages, evs, False) \<Rightarrow>
                [SetUploading True] @ evs @ [UploadConsoleError, Alert UploadFailed]
                @ [SetUploading False, ClearInput])))"

section \<open>The collaboration panel\<close>

text \<open>
  \<open>String.prototype.trim\<close> removes white space and line terminators from both ends. These
  are the UTF-8 encodings of the code points it removes: U+0009 to U+000D, U+0020, U+00A0,
  U+1680, U+2000 to U+200A, U+2028, U+2029, U+202F, U+205F, U+3000 and U+FEFF.
\<close>

definition js_whitespace :: "string list" where
  "js_whitespace =
     [[CHR 0x09], [CHR 0x0A], [CHR 0x0B], [CHR 0x0C], [CHR 0x0D], [CHR 0x20],
      [CHR 0xC2, CHR 0xA0],
      [CHR 0xE1, CHR 0x9A, CHR 0x80],
      [CHR 0xE2, CHR 0x80, CHR 0x80], [CHR 0xE2, CHR 0x80, CHR 0x81],
      [CHR 0xE2, CHR 0x80, CHR 0x82], [CHR 0xE2, CHR 0x80, CHR 0x83],
      [CHR 0xE2, CHR 0x80, CHR 0x84], [CHR 0xE2, CHR 0x80, CHR 0x85],
      [CHR 0xE2, CHR 0x80, CHR 0x86], [CHR 0xE2, CHR 0x80, CHR 0x87],
      [CHR 0xE2, CHR 0x80, CHR 0x88], [CHR 0xE2, CHR 0x80, CHR 0x89],
      [CHR 0xE2, CHR 0x80, CHR 0x8A],
      [CHR 0xE2, CHR 0x80, CHR 0xA8], [CHR 0xE2, CHR 0x80, CHR 0xA9],
      [CHR 0xE2, CHR 0x80, CHR 0xAF],
      [CHR 0xE2, CHR 0x81, CHR 0x9F],
      [CHR 0xE3, CHR 0x80, CHR 0x80],
      [CHR 0xEF, CHR 0xBB, CHR 0xBF]]"

text \<open>The number of bytes of the white-space code point a text starts with; 0 if none.\<close>

definition ws_width :: "string list \<Rightarrow> string \<Rightarrow> nat" where
  "ws_width table s =
     (case find (\<lambda>w. take (length w) s = w) table of Some w \<Rightarrow> length w | None \<Rightarrow> 0)"

fun strip_leading :: "string list \<Rightarrow> string \<Rightarrow> string" where
  "strip_leading table [] = []"
| "strip_leading table (c # cs) =
     (if ws_width table (c # cs) = 0 then c # cs
      else strip_leading table (drop (ws_width table (c # cs) - 1) cs))"

definition trim :: "string \<Rightarrow> string" where
  "trim s = rev (strip_leading (map rev js_whitespace) (rev (strip_leading js_whitespace s)))"

text \<open>\<open>inviteEmail.split('@')[0]\<close>: the text before the first \<open>@\<close>.\<close>

definition split_at_sign_0 :: "string \<Rightarrow> string" where
  "split_at_sign_0 s = takeWhile (\<lambda>c. c \<noteq> CHR ''@'') s"

definition role_name :: "role \<Rightarrow> string" where
  "role_name r = (case r of Owner \<Rightarrow> ''owner'' | Editor \<Rightarrow> ''editor'' | Viewer \<Rightarrow> ''viewer'')"

record CollaborationPanel =
  panel_collaborators :: "Collaborator list"
  inviteEmail :: string
  inviteRole :: role
  panel_loading :: bool
  inviting :: bool

text \<open>
  \<open>loadCollaborators\<close>, given the store's answer to its query (\<open>None\<close>: the query
  rejected).
\<close>

definition loadCollaborators ::
  "Collaborator list option \<Rightarrow> CollaborationPanel \<Rightarrow> event list \<times> CollaborationPanel" where
  "loadCollaborators answer p =
     (case answer of
        Some data \<Rightarrow> ([], p\<lparr>panel_collaborators := data, panel_loading := False\<rparr>)
      | None \<Rightarrow>
          ([ConsoleError ''Failed to load collaborators:'',
            Notify (Toast ''Error'' ''Failed to load collaborators'' True)],
           p\<lparr>panel_loading := False\<rparr>))"

text \<open>
  \<open>inviteCollaborator\<close>, with the props \<open>listId\<close> and \<open>currentUser\<close>. \<open>collaboratorId\<close> and
  \<open>now\<close> are the identifier and the time stamp drawn by the call, \<open>reloaded\<close> the store's
  answer to the reload. \<open>finally\<close> clears \<open>inviting\<close> on every path after the first guard.
\<close>

definition inviteCollaborator ::
  "store \<Rightarrow> string \<Rightarrow> string \<Rightarrow> Collaborator list option \<Rightarrow> string \<Rightarrow> User \<Rightarrow>
   CollaborationPanel \<Rightarrow> event list \<times> CollaborationPanel" where
  "inviteCollaborator st collaboratorId now reloaded listId currentUser p =
     (if trim (inviteEmail p) = [] then ([], p)
      else
        (case find (\<lambda>c. userEmail c = inviteEmail p) (panel_collaborators p) of
           Some existing \<Rightarrow>
             ([Notify (Toast ''Already Added'' ''This user is already a collaborator'' True)],
              p\<lparr>inviting := False\<rparr>)
         | None \<Rightarrow>
             (let call = ListCollaboratorsCreate
                           \<lparr> collab_id = collaboratorId,
                             collab_listId = listId,
                             collab_userId = user_id currentUser,
                             userEmail = inviteEmail p,
                             userDisplayName = split_at_sign_0 (inviteEmail p),
                             role = inviteRole p,
                             status = ''pending'',
                             invitedBy = user_id currentUser,
                             joinedAt = now \<rparr> in
              case st call of
                Rejected \<Rightarrow>
                  ([Db call, ConsoleError ''Failed to invite collaborator:'',
                    Notify (Toast ''Error'' ''Failed to send invitation'' True)],
                   p\<lparr>inviting := False\<rparr>)
              | Resolved \<Rightarrow>
                  (case loadCollaborators reloaded p of
                     (evs, p') \<Rightarrow>
                       (Db call # evs
                        @ [Notify (Toast ''Invitation Sent''
                                     (''Invited '' @ inviteEmail p @ '' as '' @ role_name (inviteRole p))
                                     False)],
                        p'\<lparr>inviteEmail := [], inviting := False\<rparr>)))))"



section \<open>The owner's views\<close>






section \<open>Notions used by the properties\<close>

text \<open>Dense ordering: the \<open>orderIndex\<close> values are 0 to n - 1, each exactly once.\<close>

definition dense :: "ListItem list \<Rightarrow> bool" where
  "dense its =
     (distinct (map orderIndex its) \<and> set (map orderIndex its) = {0 ..< length its})"

text \<open>
  Item mutations of the shared view, and a run of them in which every store call resolves.
  \<open>Toggle\<close> is the check button: \<open>updateItem(item.id, { isChecked: ... })\<close>.
\<close>

datatype mutation = Append string string | Delete string | Toggle string bool

definition toggle_updates :: "bool \<Rightarrow> ItemUpdates" where
  "toggle_updates b =
     \<lparr> upd_item_id = None, upd_content = None, upd_isChecked = Some b, upd_orderIndex = None \<rparr>"

definition all_resolve :: store where
  "all_resolve call = Resolved"

fun mutate :: "SharedList \<Rightarrow> mutation \<Rightarrow> SharedList" where
  "mutate s (Append newId now) = snd (addItem all_resolve newId now s)"
| "mutate s (Delete itemId) = snd (removeItem all_resolve s itemId)"
| "mutate s (Toggle itemId b) = snd (updateItem all_resolve s itemId (toggle_updates b))"

definition is_delete :: "mutation \<Rightarrow> bool" where
  "is_delete m = (case m of Delete _ \<Rightarrow> True | _ \<Rightarrow> False)"

text \<open>An event that reports an error to the user or the console.\<close>

definition reports_error :: "event \<Rightarrow> bool" where
  "reports_error e =
     (case e of Notify (Toast _ _ destructive) \<Rightarrow> destructive | ConsoleError _ \<Rightarrow> True | _ \<Rightarrow> False)"

text \<open>
  The role resolution algorithm in the words of the specification: owner if the requester
  is the list's owner; else the role of the collaborator record of a present requester;
  else viewer if the list is shared; else none (\<open>None\<close>).
\<close>

definition spec_RoleResolver :: "User option \<Rightarrow> List \<Rightarrow> Collaborator list \<Rightarrow> role option" where
  "spec_RoleResolver requester l cs =
     (if map_option user_id requester = Some (list_userId l) then Some Owner
      else if requester \<noteq> None
              \<and> find (\<lambda>c. Some (collab_userId c) = map_option user_id requester) cs \<noteq> None
           then map_option role (find (\<lambda>c. Some (collab_userId c) = map_option user_id requester) cs)
      else if isShared l then Some Viewer
      else None)"

text \<open>
  The common layout of both serializers, with the line terminator and the attribution line
  as parameters.
\<close>

fun layout_items :: "string \<Rightarrow> nat \<Rightarrow> ListItem list \<Rightarrow> string" where
  "layout_items nl index [] = []"
| "layout_items nl index (item # rest) =
     checkbox item @ '' '' @ show_nat (index + 1) @ ''. '' @ content item @ nl
     @ layout_items nl (index + 1) rest"

fun layout_images :: "string \<Rightarrow> nat \<Rightarrow> UploadedImage list \<Rightarrow> string" where
  "layout_images nl index [] = []"
| "layout_images nl index (img # rest) =
     show_nat (index + 1) @ ''. '' @ url img @ nl @ layout_images nl (index + 1) rest"

definition layout :: "string \<Rightarrow> string \<Rightarrow> List option \<Rightarrow> ListItem list \<Rightarrow> UploadedImage list \<Rightarrow> string" where
  "layout nl attribution lst its imgs =
     (case lst of
        None \<Rightarrow> []
      | Some l \<Rightarrow>
          ''*'' @ title l @ ''*'' @ nl
          @ (if description l = [] then [] else ''_'' @ description l @ ''_'' @ nl)
          @ nl
          @ layout_items nl 0 its
          @ (if imgs = [] then [] else nl @ glyph_camera @ '' *Images:*'' @ nl @ layout_images nl 0 imgs)
          @ nl @ attribution)"

subsection \<open>Concrete inputs\<close>

definition groceries :: List where
  "groceries =
     \<lparr> list_id = ''l1'', title = ''Groceries'', description = [], templateType = ''shopping'',
       language = ''en'', isShared = True, shareToken = ''tok1'', list_userId = ''u1'' \<rparr>"

definition milk :: ListItem where
  "milk = \<lparr> item_id = ''i1'', item_listId = ''l1'', content = ''Milk'', isChecked = True,
            orderIndex = 0 \<rparr>"

definition eggs :: ListItem where
  "eggs = \<lparr> item_id = ''i2'', item_listId = ''l1'', content = ''Eggs'', isChecked = False,
            orderIndex = 1 \<rparr>"

definition u1 :: User where
  "u1 = \<lparr> user_id = ''u1'', email = ''ann@example.com'', displayName = None \<rparr>"

definition u2 :: User where
  "u2 = \<lparr> user_id = ''u2'', email = ''bob@example.com'', displayName = None \<rparr>"

definition u3 :: User where
  "u3 = \<lparr> user_id = ''u3'', email = ''cy@example.com'', displayName = None \<rparr>"

definition u2_editor :: Collaborator where
  "u2_editor =
     \<lparr> collab_id = ''c1'', collab_listId = ''l1'', collab_userId = ''u2'',
       userEmail = ''bob@example.com'', userDisplayName = ''bob'', role = Editor,
       status = ''accepted'', invitedBy = ''u1'', joinedAt = ''2024-01-01T00:00:00.000Z'' \<rparr>"

text \<open>The shared view of \<open>groceries\<close> as a requester with the given role sees it.\<close>

definition view_as :: "User option \<Rightarrow> role option \<Rightarrow> SharedList" where
  "view_as u r =
     \<lparr> user = u, list = Some groceries, items = [milk, eggs], images = [],
       collaborators = [u2_editor], userRole = r, loading = False, authLoading = False \<rparr>"

text \<open>A store holding \<open>groceries\<close> and the same list with sharing switched off.\<close>

definition store_shared :: db where
  "store_shared =
     \<lparr> lists = [groceries], listItems = [milk, eggs], listImages = [],
       listCollaborators = [u2_editor] \<rparr>"

definition store_unshared :: db where
  "store_unshared =
     \<lparr> lists = [groceries\<lparr>isShared := False\<rparr>], listItems = [milk, eggs], listImages = [],
       listCollaborators = [u2_editor] \<rparr>"

definition all_answer :: "collection \<Rightarrow> bool" where
  "all_answer c = True"

text \<open>The update \<open>{ title: 'Food' }\<close>.\<close>

definition rename_to_food :: ListUpdates where
  "rename_to_food =
     \<lparr> upd_list_id = None, upd_title = Some ''Food'', upd_description = None,
       upd_templateType = None, upd_language = None, upd_isShared = None,
       upd_shareToken = None, upd_list_userId = None \<rparr>"

text \<open>An image file, the image it becomes once uploaded, and a blob store that accepts it.\<close>

definition photo :: File where
  "photo = \<lparr> file_name = ''a.png'', file_type = ''image/png'', file_size = 100 \<rparr>"

definition stored_photo :: "string \<Rightarrow> UploadedImage" where
  "stored_photo i =
     \<lparr> image_id = i, filename = ''a.png'', url = ''https://cdn/a.png'', image_size = 100 \<rparr>"

definition storage_ok :: "File \<Rightarrow> string \<Rightarrow> string option" where
  "storage_ok f path = Some ''https://cdn/a.png''"

definition fresh_ids :: "nat \<Rightarrow> string" where
  "fresh_ids k = ''img_'' @ show_nat k"

text \<open>The collaboration panel of \<open>groceries\<close> with an invitation typed in.\<close>

definition invite_bob :: CollaborationPanel where
  "invite_bob =
     \<lparr> panel_collaborators = [], inviteEmail = ''bob@example.com'', inviteRole = Editor,
       panel_loading = False, inviting = False \<rparr>"




section \<open>Properties of the message serializer\<close>

lemma shared_items_forEach_layout:
  "shared_items_forEach message k its = message @ layout_items line_feed k its"
  by (induction its arbitrary: message k) simp_all

lemma shared_images_forEach_layout:
  "shared_images_forEach message k imgs = message @ layout_images line_feed k imgs"
  by (induction imgs arbitrary: message k) simp_all

lemma editor_items_forEach_layout:
  "editor_items_forEach message k its = message @ layout_items backslash_n k its"
  by (induction its arbitrary: message k) simp_all

lemma editor_images_forEach_layout:
  "editor_images_forEach message k imgs = message @ layout_images backslash_n k imgs"
  by (induction imgs arbitrary: message k) simp_all

lemma shared_is_layout:
  "generateWhatsAppMessage_shared lst its imgs =
     layout line_feed ''_Shared via WhatsApp List Manager_'' lst its imgs"
  by (cases lst)
     (simp_all add: generateWhatsAppMessage_shared_def layout_def Let_def
        shared_items_forEach_layout shared_images_forEach_layout)

lemma editor_is_layout:
  "generateWhatsAppMessage_editor lst its imgs =
     layout backslash_n ''_Created with WhatsApp List Manager_'' lst its imgs"
  by (cases lst)
     (simp_all add: generateWhatsAppMessage_editor_def layout_def Let_def
        editor_items_forEach_layout editor_images_forEach_layout)

text \<open>
  C7. On the list "Groceries" with an empty description, the items Milk (checked) and Eggs
  (unchecked) and no image, the serializer should produce the bold title line, a blank
  line, the two numbered item lines, a blank line and the attribution line, separated by
  real newline characters. The shared view's serializer does exactly that. The list
  editor's serializer, evaluated here on the same input, ends every line with the two
  characters backslash and n: its output contains no line feed at all.
\<close>

theorem editor_message_has_no_line_feed:
  "generateWhatsAppMessage_shared (Some groceries) [milk, eggs] [] =
     ''*Groceries*'' @ line_feed @ line_feed
     @ glyph_checked @ '' 1. Milk'' @ line_feed
     @ glyph_unchecked @ '' 2. Eggs'' @ line_feed
     @ line_feed @ ''_Shared via WhatsApp List Manager_''
   \<and> generateWhatsAppMessage_editor (Some groceries) [milk, eggs] [] =
     ''*Groceries*'' @ backslash_n @ backslash_n
     @ glyph_checked @ '' 1. Milk'' @ backslash_n
     @ glyph_unchecked @ '' 2. Eggs'' @ backslash_n
     @ backslash_n @ ''_Created with WhatsApp List Manager_''
   \<and> CHR 0x0A \<notin> set (generateWhatsAppMessage_editor (Some groceries) [milk, eggs] [])"
  by (simp add: generateWhatsAppMessage_shared_def generateWhatsAppMessage_editor_def
        groceries_def milk_def eggs_def checkbox_def show_nat.simps backslash_n_def
        glyph_checked_def glyph_unchecked_def)

text \<open>
  C10, as stated: the serializer of the list editor and the serializer of the shared view
  return the same text on every input. They do not: on the "Groceries" list the two texts
  differ.
\<close>

theorem serializers_differ:
  "generateWhatsAppMessage_editor (Some groceries) [milk, eggs] []
     \<noteq> generateWhatsAppMessage_shared (Some groceries) [milk, eggs] []"
  by (simp add: generateWhatsAppMessage_shared_def generateWhatsAppMessage_editor_def
        groceries_def milk_def eggs_def checkbox_def show_nat.simps line_feed_def backslash_n_def)

text \<open>
  C10, amended: both serializers follow one layout (title, optional description, blank
  line, numbered items, optional image section, attribution), each with a line terminator
  of its own and an attribution line of its own: "Shared via WhatsApp List Manager" in the
  shared view, "Created with WhatsApp List Manager" in the list editor. Both return the
  empty text when no list is loaded.
\<close>

theorem serializers_same_layout:
  "generateWhatsAppMessage_shared lst its imgs =
     layout line_feed ''_Shared via WhatsApp List Manager_'' lst its imgs
   \<and> (\<exists>nl. \<forall>lst' its' imgs'.
         generateWhatsAppMessage_editor lst' its' imgs' =
           layout nl ''_Created with WhatsApp List Manager_'' lst' its' imgs')"
  using shared_is_layout editor_is_layout by blast

text \<open>Witness for C10: the layout of the shared view's text for the "Groceries" list.\<close>

theorem serializers_same_layout_witness:
  "generateWhatsAppMessage_shared (Some groceries) [milk, eggs] [] =
     ''*Groceries*'' @ line_feed @ line_feed
     @ glyph_checked @ '' 1. Milk'' @ line_feed
     @ glyph_unchecked @ '' 2. Eggs'' @ line_feed
     @ line_feed @ ''_Shared via WhatsApp List Manager_''"
  using serializers_same_layout [of "Some groceries" "[milk, eggs]" "[]"]
  by (simp add: layout_def groceries_def milk_def eggs_def checkbox_def show_nat.simps)

section \<open>Ordering of the items\<close>

lemma addItem_keeps_dense:
  assumes "dense (items s)"
  shows "dense (items (snd (addItem st newId now s)))"
proof (cases "list s")
  case None
  with assms show ?thesis by (simp add: addItem_def)
next
  case (Some l)
  show ?thesis
  proof (cases "canEdit s \<and> st (ListItemsCreate \<lparr> item_id = newId, item_listId = list_id l,
                 content = [], isChecked = False, orderIndex = length (items s) \<rparr> now) = Resolved")
    case True
    from assms have "set (map orderIndex (items s)) = {0 ..< length (items s)}"
      and "distinct (map orderIndex (items s))"
      by (simp_all add: dense_def)
    then have "dense (items s @ [\<lparr> item_id = newId, item_listId = list_id l,
                 content = [], isChecked = False, orderIndex = length (items s) \<rparr>])"
      by (auto simp: dense_def)
    with True Some show ?thesis by (simp add: addItem_def Let_def)
  next
    case False
    with assms Some show ?thesis
      by (auto simp: addItem_def Let_def split: reply.splits)
  qed
qed

lemma toggle_keeps_orderIndex:
  "map orderIndex (items (snd (updateItem st s itemId (toggle_updates b)))) = map orderIndex (items s)"
  by (auto simp: updateItem_def Let_def spread_item_def toggle_updates_def split: reply.splits)

lemma toggle_keeps_dense:
  assumes "dense (items s)"
  shows "dense (items (snd (updateItem st s itemId (toggle_updates b))))"
proof -
  have "length (items (snd (updateItem st s itemId (toggle_updates b)))) = length (items s)"
    using toggle_keeps_orderIndex [of st s itemId b] by (metis length_map)
  with assms toggle_keeps_orderIndex [of st s itemId b] show ?thesis
    by (simp add: dense_def)
qed

lemma mutate_keeps_dense:
  "dense (items s) \<Longrightarrow> \<not> is_delete m \<Longrightarrow> dense (items (mutate s m))"
  by (cases m) (simp_all add: addItem_keeps_dense toggle_keeps_dense is_delete_def)

lemma run_keeps_dense:
  "dense (items s) \<Longrightarrow> \<forall>m\<in>set ms. \<not> is_delete m \<Longrightarrow> dense (items (foldl mutate s ms))"
  by (induction ms arbitrary: s) (simp_all add: mutate_keeps_dense)

lemma removeItem_items:
  "items (snd (removeItem st s itemId)) = items s
   \<or> items (snd (removeItem st s itemId)) = filter (\<lambda>item. item_id item \<noteq> itemId) (items s)"
  by (auto simp: removeItem_def Let_def split: reply.splits)

lemma dense_bound: "dense its \<Longrightarrow> it \<in> set its \<Longrightarrow> orderIndex it < length its"
  by (auto simp: dense_def)

text \<open>
  C1, as stated: after every sequence of successful appends, deletes and check toggles the
  \<open>orderIndex\<close> values are exactly 0 to n - 1, \<open>removeItem\<close> renumbering the items after the
  deleted one. The owner deletes Milk (index 0) from the dense list Milk, Eggs: Eggs keeps
  index 1, and the remaining list is not dense.
\<close>

theorem delete_leaves_gap:
  "dense (items (view_as (Some u1) (Some Owner)))
   \<and> \<not> dense (items (mutate (view_as (Some u1) (Some Owner)) (Delete ''i1'')))"
  by (auto simp: dense_def view_as_def removeItem_def canEdit_def all_resolve_def milk_def eggs_def)

text \<open>
  C1, amended: starting from a dense list, every sequence of successful appends and check
  toggles leaves the \<open>orderIndex\<close> values exactly 0 to n - 1 without duplicates.
  \<open>removeItem\<close> deletes the items with the given identifier and does not renumber: every
  remaining item is an item of the old list with its \<open>orderIndex\<close> as before, so the values
  stay distinct and below the old count, but need not be contiguous.
\<close>

theorem append_toggle_dense_delete_keeps_indices:
  assumes "dense (items s)"
  shows "((\<forall>m\<in>set ms. \<not> is_delete m) \<longrightarrow> dense (items (foldl mutate s ms)))
       \<and> (canEdit s \<longrightarrow>
            items (mutate s (Delete itemId)) = filter (\<lambda>item. item_id item \<noteq> itemId) (items s))
       \<and> set (items (mutate s (Delete itemId))) \<subseteq> set (items s)
       \<and> distinct (map orderIndex (items (mutate s (Delete itemId))))
       \<and> (\<forall>it\<in>set (items (mutate s (Delete itemId))). orderIndex it < length (items s))"
proof -
  have d: "distinct (map orderIndex (items s))" using assms by (simp add: dense_def)
  have sub: "set (items (mutate s (Delete itemId))) \<subseteq> set (items s)"
    using removeItem_items [of all_resolve s itemId] by auto
  have dist: "distinct (map orderIndex (items (mutate s (Delete itemId))))"
    using removeItem_items [of all_resolve s itemId] d by (auto simp: distinct_map_filter)
  show ?thesis
    using assms sub dist run_keeps_dense [of s ms] dense_bound [of "items s"]
    by (auto simp: removeItem_def Let_def all_resolve_def)
qed

text \<open>
  Witness for C1: the owner appends an item and checks Eggs, and the three indices are 0,
  1, 2; the owner deletes Milk instead, and Eggs is left with index 1.
\<close>

theorem append_toggle_dense_delete_keeps_indices_witness:
  "dense (items (view_as (Some u1) (Some Owner)))
   \<and> \<not> is_delete (Append ''i3'' ''t1'') \<and> \<not> is_delete (Toggle ''i2'' True)
   \<and> canEdit (view_as (Some u1) (Some Owner))
   \<and> map orderIndex (items (foldl mutate (view_as (Some u1) (Some Owner))
                               [Append ''i3'' ''t1'', Toggle ''i2'' True])) = [0, 1, 2]
   \<and> dense (items (foldl mutate (view_as (Some u1) (Some Owner))
                     [Append ''i3'' ''t1'', Toggle ''i2'' True]))
   \<and> items (mutate (view_as (Some u1) (Some Owner)) (Delete ''i1'')) = [eggs]
   \<and> orderIndex eggs < length (items (view_as (Some u1) (Some Owner)))"
  using append_toggle_dense_delete_keeps_indices
          [of "view_as (Some u1) (Some Owner)" "[Append ''i3'' ''t1'', Toggle ''i2'' True]" "''i1''"]
  by (auto simp: dense_def view_as_def addItem_def updateItem_def removeItem_def canEdit_def
        all_resolve_def is_delete_def toggle_updates_def spread_item_def milk_def eggs_def
        groceries_def Let_def)

section \<open>Denied actions\<close>

text \<open>
  C2, as stated: an operation whose guard denies the requester raises a distinct
  Unauthorized error and leaves the state unchanged. A viewer calls \<open>removeItem\<close>: the
  guard \<open>if (!canEdit) return\<close> returns, and among the events of the call none reports an
  error (there is no event at all).
\<close>

theorem viewer_removeItem_reports_nothing:
  "\<not> canEdit (view_as (Some u3) (Some Viewer))
   \<and> \<not> list_ex reports_error (fst (removeItem all_resolve (view_as (Some u3) (Some Viewer)) ''i1''))"
  by (simp add: canEdit_def view_as_def removeItem_def)

text \<open>
  C2, amended: an operation whose guard denies the requester returns at once and silently.
  When \<open>canEdit\<close> is false, \<open>removeItem\<close>, \<open>addItem\<close>, \<open>updateItem\<close> and
  \<open>handleImagesChange\<close> make no store call, show no toast, log nothing and leave the view
  state unchanged; when \<open>canManageSettings\<close> is false, so does \<open>updateList\<close>.
\<close>

theorem denied_is_silent:
  "(\<not> canEdit s \<longrightarrow>
      removeItem st s itemId = ([], s) \<and> addItem st newId now s = ([], s)
      \<and> updateItem st s itemId itemUpdates = ([], s)
      \<and> handleImagesChange st now s newImages = ([], s))
   \<and> (\<not> canManageSettings s \<longrightarrow> updateList st now s listUpdates = ([], s))"
  by (auto simp: removeItem_def addItem_def updateItem_def handleImagesChange_def updateList_def
        split: option.splits)

text \<open>
  Witness for C2: the viewer u3 removing an item and the editor u2 updating the list.
\<close>

theorem denied_is_silent_witness:
  "\<not> canEdit (view_as (Some u3) (Some Viewer))
   \<and> \<not> canManageSettings (view_as (Some u2) (Some Editor))
   \<and> removeItem all_resolve (view_as (Some u3) (Some Viewer)) ''i1'' = ([], view_as (Some u3) (Some Viewer))
   \<and> updateList all_resolve ''t1'' (view_as (Some u2) (Some Editor)) rename_to_food
        = ([], view_as (Some u2) (Some Editor))"
  using denied_is_silent [where s = "view_as (Some u3) (Some Viewer)" and st = all_resolve
                            and itemId = "''i1''"]
        denied_is_silent [where s = "view_as (Some u2) (Some Editor)" and st = all_resolve
                            and now = "''t1''" and listUpdates = rename_to_food]
  by (simp add: canEdit_def canManageSettings_def view_as_def)

section \<open>Resolving a list by its share token\<close>

lemma unique_token_query:
  assumes "l \<in> set ls" and "distinct (map shareToken ls)"
  shows "filter (\<lambda>x. Some (shareToken x) = Some (shareToken l) \<and> isShared x) ls
           = (if isShared l then [l] else [])"
  using assms
proof (induction ls)
  case Nil
  then show ?case by simp
next
  case (Cons a ls)
  show ?case
  proof (cases "a = l")
    case True
    with Cons.prems have "shareToken l \<notin> shareToken ` set ls" by simp
    then have "\<forall>x\<in>set ls. shareToken x \<noteq> shareToken l" by (metis imageI)
    then have "filter (\<lambda>x. Some (shareToken x) = Some (shareToken l) \<and> isShared x) ls = []"
      by (auto simp: filter_empty_conv)
    with True show ?thesis by simp
  next
    case False
    with Cons.prems have "l \<in> set ls" "distinct (map shareToken ls)" "shareToken a \<noteq> shareToken l"
      by auto
    with Cons.IH show ?thesis by simp
  qed
qed

lemma no_match_query:
  "t \<notin> shareToken ` set ls \<Longrightarrow> filter (\<lambda>x. Some (shareToken x) = Some t \<and> isShared x) ls = []"
  by (auto simp: filter_empty_conv)

lemma determineRole_spec:
  "isShared l \<Longrightarrow> Some (determineRole usr l cs) = spec_RoleResolver usr l cs"
  by (cases usr) (auto simp: determineRole_def spec_RoleResolver_def split: option.splits)

text \<open>
  C3, as stated: for every list and requester the role is owner, else the collaborator
  record's role, else viewer if the list is shared, else none. The owner u1 opens the
  share link of their own list while sharing is switched off: the list is not found and
  no role is set, where the algorithm says owner.
\<close>

theorem owner_of_unshared_list_gets_no_role:
  "userRole (snd (loadSharedList all_answer store_unshared (Some ''tok1'') (initial (Some u1))))
     \<noteq> spec_RoleResolver (Some u1) (groceries\<lparr>isShared := False\<rparr>) [u2_editor]"
  by (simp add: loadSharedList_def store_unshared_def groceries_def initial_def all_answer_def
        spec_RoleResolver_def u1_def)

text \<open>
  C3, amended: roles are resolved by the shared view, for a list reached through its share
  token. For a list with \<open>isShared = true\<close> the role is the one the algorithm gives: owner
  if the requester is the list's owner, else the role of the first collaborator record of a
  present requester, else viewer (also for an anonymous requester). For a list with
  \<open>isShared = false\<close> nothing is resolved: the list is not found and the role stays as it
  was (unset when the view opens), for every requester, the owner and the collaborators
  included. Share tokens are unique in the store, the token is not empty and the store
  answers.
\<close>

theorem shared_list_role:
  assumes "l \<in> set (lists d)" and "distinct (map shareToken (lists d))"
    and "shareToken l \<noteq> []" and "\<forall>c. answers c"
  shows "userRole (snd (loadSharedList answers d (Some (shareToken l)) s)) =
           (if isShared l
            then spec_RoleResolver (user s) l
                   (filter (\<lambda>c. collab_listId c = list_id l) (listCollaborators d))
            else userRole s)"
  using assms unique_token_query [of l "lists d"]
  by (simp add: loadSharedList_def Let_def determineRole_spec)

text \<open>
  Witness for C3: the collaborator u2 opens the shared list and is an editor; with sharing
  switched off, the owner u1 gets no role.
\<close>

theorem shared_list_role_witness:
  "groceries \<in> set (lists store_shared) \<and> distinct (map shareToken (lists store_shared))
   \<and> shareToken groceries \<noteq> [] \<and> all_answer Lists \<and> isShared groceries
   \<and> userRole (snd (loadSharedList all_answer store_shared (Some ''tok1'') (initial (Some u2))))
       = Some Editor
   \<and> userRole (snd (loadSharedList all_answer store_unshared (Some ''tok1'') (initial (Some u1))))
       = None"
  using shared_list_role [of groceries store_shared all_answer "initial (Some u2)"]
        shared_list_role [of "groceries\<lparr>isShared := False\<rparr>" store_unshared all_answer
                            "initial (Some u1)"]
  by (simp add: store_shared_def store_unshared_def groceries_def all_answer_def initial_def
        spec_RoleResolver_def u2_editor_def u2_def u1_def)

text \<open>
  C4. For a list with \<open>isShared = false\<close>, resolving its stored, non-empty share token gives
  the same result as resolving a non-empty token that matches no list: the same events and
  the same state, which is "Shared list not found or no longer available" whenever the
  store answers. A list is resolved by a token only when its \<open>isShared\<close> flag is true: the
  list a load sets carries the token and is shared. Share tokens are unique in the store.
\<close>

theorem unshared_token_not_found:
  assumes "l \<in> set (lists d)" and "\<not> isShared l" and "distinct (map shareToken (lists d))"
    and "shareToken l \<noteq> []" and "t \<notin> shareToken ` set (lists d)" and "t \<noteq> []"
  shows "loadSharedList answers d (Some (shareToken l)) s = loadSharedList answers d (Some t) s
       \<and> (answers Lists \<longrightarrow>
            loadSharedList answers d (Some (shareToken l)) s =
              ([Notify (Toast ''Error'' ''Shared list not found or no longer available'' True),
                Navigate ''/''], s\<lparr>loading := False\<rparr>))
       \<and> (\<forall>tok found. list s = None
             \<longrightarrow> list (snd (loadSharedList answers d tok s)) = Some found
             \<longrightarrow> isShared found \<and> Some (shareToken found) = tok)"
proof -
  have a: "filter (\<lambda>x. Some (shareToken x) = Some (shareToken l) \<and> isShared x) (lists d) = []"
    using assms unique_token_query [of l "lists d"] by simp
  have b: "filter (\<lambda>x. Some (shareToken x) = Some t \<and> isShared x) (lists d) = []"
    using assms no_match_query [of t "lists d"] by simp
  have c: "isShared found \<and> Some (shareToken found) = tok"
    if "list s = None" and "list (snd (loadSharedList answers d tok s)) = Some found" for tok found
  proof (cases "filter (\<lambda>x. Some (shareToken x) = tok \<and> isShared x) (lists d)")
    case Nil
    with that show ?thesis by (auto simp: loadSharedList_def load_failed_def split: if_splits)
  next
    case (Cons x xs)
    then have "x \<in> set (filter (\<lambda>x. Some (shareToken x) = tok \<and> isShared x) (lists d))" by simp
    then have "isShared x \<and> Some (shareToken x) = tok" by simp
    with that Cons show ?thesis
      by (auto simp: loadSharedList_def load_failed_def Let_def split: if_splits)
  qed
  show ?thesis using assms a b c by (simp add: loadSharedList_def)
qed

text \<open>
  Witness for C4: with sharing switched off, the token of \<open>groceries\<close> and the unknown token
  \<open>nope\<close> both end in "not found".
\<close>

theorem unshared_token_not_found_witness:
  "groceries\<lparr>isShared := False\<rparr> \<in> set (lists store_unshared)
   \<and> \<not> isShared (groceries\<lparr>isShared := False\<rparr>)
   \<and> distinct (map shareToken (lists store_unshared))
   \<and> shareToken (groceries\<lparr>isShared := False\<rparr>) = ''tok1''
   \<and> ''nope'' \<notin> shareToken ` set (lists store_unshared)
   \<and> loadSharedList all_answer store_unshared (Some ''tok1'') (initial None)
       = loadSharedList all_answer store_unshared (Some ''nope'') (initial None)
   \<and> loadSharedList all_answer store_unshared (Some ''tok1'') (initial None)
       = ([Notify (Toast ''Error'' ''Shared list not found or no longer available'' True),
           Navigate ''/''], (initial None)\<lparr>loading := False\<rparr>)"
proof -
  have 1: "groceries\<lparr>isShared := False\<rparr> \<in> set (lists store_unshared)"
    by (simp add: store_unshared_def)
  have 2: "\<not> isShared (groceries\<lparr>isShared := False\<rparr>)"
    by simp
  have 3: "distinct (map shareToken (lists store_unshared))"
    by (simp add: store_unshared_def)
  have tok: "shareToken (groceries\<lparr>isShared := False\<rparr>) = ''tok1''"
    by (simp add: groceries_def)
  have 4: "shareToken (groceries\<lparr>isShared := False\<rparr>) \<noteq> []"
    by (simp add: tok)
  have 5: "''nope'' \<notin> shareToken ` set (lists store_unshared)"
    by (simp add: store_unshared_def groceries_def)
  have 6: "''nope'' \<noteq> []"
    by simp
  have ans: "all_answer Lists"
    by (simp add: all_answer_def)
  from unshared_token_not_found [OF 1 2 3 4 5 6, of all_answer "initial None"] ans
  have "loadSharedList all_answer store_unshared
          (Some (shareToken (groceries\<lparr>isShared := False\<rparr>))) (initial None)
          = loadSharedList all_answer store_unshared (Some ''nope'') (initial None)
        \<and> loadSharedList all_answer store_unshared
            (Some (shareToken (groceries\<lparr>isShared := False\<rparr>))) (initial None)
          = ([Notify (Toast ''Error'' ''Shared list not found or no longer available'' True),
              Navigate ''/''], (initial None)\<lparr>loading := False\<rparr>)"
    by blast
  then have "loadSharedList all_answer store_unshared (Some ''tok1'') (initial None)
          = loadSharedList all_answer store_unshared (Some ''nope'') (initial None)
        \<and> loadSharedList all_answer store_unshared (Some ''tok1'') (initial None)
          = ([Notify (Toast ''Error'' ''Shared list not found or no longer available'' True),
              Navigate ''/''], (initial None)\<lparr>loading := False\<rparr>)"
    unfolding tok .
  with 1 2 3 5 tok show ?thesis by blast
qed

section \<open>Attachment quota\<close>

lemma round53_exact: "n < 2 ^ 53 \<Longrightarrow> round53 n = n"
  by (simp add: round53_def)

lemma js_add_exact: "a + b < 2 ^ 53 \<Longrightarrow> js_add a b = a + b"
  by (simp add: js_add_def round53_exact)

lemma foldl_js_add:
  "a + sum_list (map f xs) < 2 ^ 53 \<Longrightarrow>
     foldl (\<lambda>total x. js_add total (f x)) a xs = a + sum_list (map f xs)"
proof (induction xs arbitrary: a)
  case Nil
  then show ?case by simp
next
  case (Cons x xs)
  then have small: "a + f x < 2 ^ 53" and rest: "(a + f x) + sum_list (map f xs) < 2 ^ 53"
    by simp_all
  from Cons.IH [OF rest] js_add_exact [OF small] show ?case
    by (simp add: add.assoc)
qed

lemma getTotalSize_sum:
  "sum_list (map image_size imgs) < 2 ^ 53 \<Longrightarrow> getTotalSize imgs = sum_list (map image_size imgs)"
  using foldl_js_add [of 0 image_size imgs] by (simp add: getTotalSize_def)

lemma newFilesSize_sum:
  "sum_list (map file_size files) < 2 ^ 53 \<Longrightarrow> newFilesSize files = sum_list (map file_size files)"
  using foldl_js_add [of 0 file_size files] by (simp add: newFilesSize_def)

lemma size_test_exact:
  assumes "sum_list (map image_size imgs) + sum_list (map file_size files) < 2 ^ 53"
  shows "js_add (getTotalSize imgs) (newFilesSize files)
           = sum_list (map image_size imgs) + sum_list (map file_size files)"
proof -
  from assms have "sum_list (map image_size imgs) < 2 ^ 53" "sum_list (map file_size files) < 2 ^ 53"
    by simp_all
  with assms show ?thesis
    by (simp add: getTotalSize_sum newFilesSize_sum js_add_exact)
qed

text \<open>
  The rounding at work: above \<open>2 ^ 53\<close> an odd total is not a number, and the sum is the
  neighbour with the even significand.
\<close>

lemma round53_ties_to_even:
  "js_add (2 ^ 53) 1 = 2 ^ 53 \<and> js_add (2 ^ 53) 3 = 2 ^ 53 + 4"
  by (simp add: js_add_def round53_def bit_length.simps Let_def)

lemma upload_loop_bounds:
  "upload_loop storage fresh k files acc = (imgs, evs, ok) \<Longrightarrow>
     length imgs \<le> length acc + length files
     \<and> sum_list (map image_size imgs)
         \<le> sum_list (map image_size acc) + sum_list (map file_size files)"
proof (induction files arbitrary: k acc imgs evs ok)
  case Nil
  then show ?case by simp
next
  case (Cons f rest)
  show ?case
  proof (cases "take 6 (file_type f) \<noteq> ''image/''")
    case True
    with Cons.prems obtain evs' where
      "upload_loop storage fresh (k + 1) rest acc = (imgs, evs', ok)"
      by (auto split: prod.splits)
    from Cons.IH [OF this] show ?thesis by simp
  next
    case False
    show ?thesis
    proof (cases "storage f (''list-images/'' @ fresh k @ ''_'' @ file_name f)")
      case None
      with False Cons.prems show ?thesis by (simp add: Let_def)
    next
      case (Some publicUrl)
      with False Cons.prems obtain evs' where
        "upload_loop storage fresh (k + 1) rest
           (acc @ [\<lparr> image_id = fresh k, filename = file_name f,
                     url = publicUrl, image_size = file_size f \<rparr>]) = (imgs, evs', ok)"
        by (auto simp: Let_def split: prod.splits)
      from Cons.IH [OF this] show ?thesis by simp
    qed
  qed
qed

lemma upload_loop_no_change_event:
  "upload_loop storage fresh k files acc = (imgs, evs, ok) \<Longrightarrow> OnImagesChange a \<notin> set evs"
proof (induction files arbitrary: k acc imgs evs ok)
  case Nil
  then show ?case by simp
next
  case (Cons f rest)
  then show ?case
    by (auto simp: Let_def split: if_splits option.splits prod.splits)
qed

text \<open>
  C5. For byte totals below \<open>2 ^ 53\<close>, where JavaScript numbers count bytes exactly: a batch
  of additions is accepted only if the current count plus the additions is at most
  \<open>maxImages\<close> and the sum of the sizes of the current images and of the added files is at
  most \<open>maxTotalSize\<close>. Both checks come before any upload and before the new attachment
  set is handed on: when the count limit is breached the only effect is the alert naming
  the count limit, when only the size limit is breached the only effect is the alert
  naming the size limit, so nothing is uploaded, nothing is stored and no part of the
  batch is applied. An accepted attachment set respects both limits.
\<close>

theorem quota_checked_before_upload:
  assumes "sum_list (map image_size imgs) + sum_list (map file_size files) < 2 ^ 53"
  shows
  "(files \<noteq> [] \<and> length imgs + length files > maxImages \<longrightarrow>
      handleFileSelect storage fresh imgs maxImages maxTotalSize files
        = [Alert (MaximumImagesAllowed maxImages)])
   \<and> (files \<noteq> [] \<and> length imgs + length files \<le> maxImages
        \<and> sum_list (map image_size imgs) + sum_list (map file_size files) > maxTotalSize \<longrightarrow>
      handleFileSelect storage fresh imgs maxImages maxTotalSize files
        = [Alert (TotalSizeWouldExceed maxTotalSize)])
   \<and> (StorageUpload file path \<in> set (handleFileSelect storage fresh imgs maxImages maxTotalSize files)
        \<or> OnImagesChange accepted \<in> set (handleFileSelect storage fresh imgs maxImages maxTotalSize files)
       \<longrightarrow> length imgs + length files \<le> maxImages
           \<and> sum_list (map image_size imgs) + sum_list (map file_size files) \<le> maxTotalSize)
   \<and> (OnImagesChange accepted \<in> set (handleFileSelect storage fresh imgs maxImages maxTotalSize files)
       \<longrightarrow> length accepted \<le> maxImages \<and> sum_list (map image_size accepted) \<le> maxTotalSize)"
proof -
  note total = size_test_exact [OF assms]
  have post: "length accepted \<le> maxImages \<and> sum_list (map image_size accepted) \<le> maxTotalSize"
    if "OnImagesChange accepted \<in> set (handleFileSelect storage fresh imgs maxImages maxTotalSize files)"
  proof -
    obtain newImages evs ok where loop: "upload_loop storage fresh 0 files [] = (newImages, evs, ok)"
      by (metis prod_cases3)
    from that have lim: "length imgs + length files \<le> maxImages"
      "sum_list (map image_size imgs) + sum_list (map file_size files) \<le> maxTotalSize"
      by (auto simp: handleFileSelect_def Let_def total split: if_splits)
    have notin: "OnImagesChange accepted \<notin> set evs"
      using upload_loop_no_change_event [OF loop] .
    from that loop lim notin have "accepted = imgs @ newImages"
      by (auto simp: handleFileSelect_def Let_def split: if_splits bool.splits)
    with upload_loop_bounds [OF loop] lim show ?thesis
      by simp
  qed
  show ?thesis
    using post by (auto simp: handleFileSelect_def Let_def total split: if_splits)
qed

text \<open>
  Witness for C5: a list that holds four images, with \<open>maxImages = 4\<close>, rejects one more
  with the count alert; a list that holds one image of 100 bytes, with a limit of 150
  bytes, rejects a file of 100 bytes with the size alert; an empty list accepts the same
  file, uploads it and hands on a set of one image.
\<close>

theorem quota_checked_before_upload_witness:
  "sum_list (map image_size [stored_photo ''a'']) + sum_list (map file_size [photo]) < 2 ^ 53
   \<and> [photo] \<noteq> []
   \<and> length [stored_photo ''a'', stored_photo ''b'', stored_photo ''c'', stored_photo ''d'']
       + length [photo] > 4
   \<and> handleFileSelect storage_ok fresh_ids
        [stored_photo ''a'', stored_photo ''b'', stored_photo ''c'', stored_photo ''d'']
        4 1073741824 [photo]
       = [Alert (MaximumImagesAllowed 4)]
   \<and> length [stored_photo ''a''] + length [photo] \<le> 4
   \<and> sum_list (map image_size [stored_photo ''a'']) + sum_list (map file_size [photo]) > 150
   \<and> handleFileSelect storage_ok fresh_ids [stored_photo ''a''] 4 150 [photo]
       = [Alert (TotalSizeWouldExceed 150)]
   \<and> OnImagesChange [stored_photo ''img_0'']
       \<in> set (handleFileSelect storage_ok fresh_ids [] 4 1073741824 [photo])
   \<and> length [stored_photo ''img_0''] \<le> 4
   \<and> sum_list (map image_size [stored_photo ''img_0'']) \<le> 1073741824"
proof -
  have b4: "sum_list (map image_size
              [stored_photo ''a'', stored_photo ''b'', stored_photo ''c'', stored_photo ''d''])
            + sum_list (map file_size [photo]) < 2 ^ 53"
    by (simp add: stored_photo_def photo_def)
  have b1: "sum_list (map image_size [stored_photo ''a'']) + sum_list (map file_size [photo]) < 2 ^ 53"
    by (simp add: stored_photo_def photo_def)
  have b0: "sum_list (map image_size []) + sum_list (map file_size [photo]) < 2 ^ 53"
    by (simp add: photo_def)
  have acc: "OnImagesChange [stored_photo ''img_0'']
       \<in> set (handleFileSelect storage_ok fresh_ids [] 4 1073741824 [photo])"
    by (simp add: handleFileSelect_def Let_def photo_def stored_photo_def storage_ok_def
          fresh_ids_def getTotalSize_def newFilesSize_def show_nat.simps js_add_def round53_def)
  have rej: "[photo] \<noteq> [] \<and>
      length [stored_photo ''a'', stored_photo ''b'', stored_photo ''c'', stored_photo ''d'']
       + length [photo] > 4"
    by simp
  have big: "length [stored_photo ''a''] + length [photo] \<le> 4
      \<and> sum_list (map image_size [stored_photo ''a'']) + sum_list (map file_size [photo]) > 150"
    by (simp add: stored_photo_def photo_def)
  from quota_checked_before_upload
         [OF b4, where maxImages = 4 and storage = storage_ok and fresh = fresh_ids
            and maxTotalSize = 1073741824] rej
  have 1: "handleFileSelect storage_ok fresh_ids
        [stored_photo ''a'', stored_photo ''b'', stored_photo ''c'', stored_photo ''d'']
        4 1073741824 [photo] = [Alert (MaximumImagesAllowed 4)]"
    by blast
  from quota_checked_before_upload
         [OF b1, where maxImages = 4 and storage = storage_ok and fresh = fresh_ids
            and maxTotalSize = 150] rej big
  have 2: "handleFileSelect storage_ok fresh_ids [stored_photo ''a''] 4 150 [photo]
        = [Alert (TotalSizeWouldExceed 150)]"
    by blast
  from quota_checked_before_upload
         [OF b0, where maxImages = 4 and storage = storage_ok
            and fresh = fresh_ids and maxTotalSize = 1073741824
            and accepted = "[stored_photo ''img_0'']"] acc
  have 3: "length [stored_photo ''img_0''] \<le> 4
           \<and> sum_list (map image_size [stored_photo ''img_0'']) \<le> 1073741824"
    by blast
  from b1 acc rej big 1 2 3 show ?thesis by blast
qed

section \<open>The authorization table\<close>






section \<open>Invitations\<close>

text \<open>
  C9. When an invitation goes out (the e-mail address is not blank and not yet among the
  collaborators), the first effect is the creation of a collaborator row whose status is
  \<open>pending\<close> and whose \<open>userId\<close> is the inviting user's identifier, as is \<open>invitedBy\<close>; the
  row carries the invited address and role. Looking the row up by the inviter's identifier
  finds it; looking it up by any other identifier, the invitee's included, does not.
\<close>

theorem pending_row_carries_inviter:
  assumes "trim (inviteEmail p) \<noteq> []"
    and "find (\<lambda>c. userEmail c = inviteEmail p) (panel_collaborators p) = None"
  shows "\<exists>row rest.
           fst (inviteCollaborator st collaboratorId now reloaded listId currentUser p)
             = Db (ListCollaboratorsCreate row) # rest
           \<and> status row = ''pending''
           \<and> collab_userId row = user_id currentUser
           \<and> invitedBy row = user_id currentUser
           \<and> userEmail row = inviteEmail p
           \<and> role row = inviteRole p
           \<and> find (\<lambda>c. collab_userId c = user_id currentUser) [row] = Some row
           \<and> (user_id invitee \<noteq> user_id currentUser \<longrightarrow>
                find (\<lambda>c. collab_userId c = user_id invitee) [row] = None)"
  using assms
  by (cases "st (ListCollaboratorsCreate
                           \<lparr> collab_id = collaboratorId,
                             collab_listId = listId,
                             collab_userId = user_id currentUser,
                             userEmail = inviteEmail p,
                             userDisplayName = split_at_sign_0 (inviteEmail p),
                             role = inviteRole p,
                             status = ''pending'',
                             invitedBy = user_id currentUser,
                             joinedAt = now \<rparr>)")
     (auto simp: inviteCollaborator_def Let_def split: prod.splits)

text \<open>
  Witness for C9: the owner u1 invites bob@example.com as editor; the row created has
  \<open>userId = u1\<close> and status \<open>pending\<close>.
\<close>

theorem pending_row_carries_inviter_witness:
  "trim (inviteEmail invite_bob) \<noteq> []
   \<and> find (\<lambda>c. userEmail c = inviteEmail invite_bob) (panel_collaborators invite_bob) = None
   \<and> hd (fst (inviteCollaborator all_resolve ''c9'' ''2024-01-02'' None ''l1'' u1 invite_bob))
       = Db (ListCollaboratorsCreate
               \<lparr> collab_id = ''c9'', collab_listId = ''l1'', collab_userId = ''u1'',
                 userEmail = ''bob@example.com'', userDisplayName = ''bob'', role = Editor,
                 status = ''pending'', invitedBy = ''u1'', joinedAt = ''2024-01-02'' \<rparr>)"
proof -
  have t: "trim ''bob@example.com'' \<noteq> []"
    by (simp add: trim_def js_whitespace_def ws_width_def)
  then have a: "trim (inviteEmail invite_bob) \<noteq> []"
    by (simp add: invite_bob_def)
  have b: "find (\<lambda>c. userEmail c = inviteEmail invite_bob) (panel_collaborators invite_bob) = None"
    by (simp add: invite_bob_def)
  from pending_row_carries_inviter [OF a b, of all_resolve "''c9''" "''2024-01-02''" None "''l1''" u1]
  obtain row rest where
    "fst (inviteCollaborator all_resolve ''c9'' ''2024-01-02'' None ''l1'' u1 invite_bob)
       = Db (ListCollaboratorsCreate row) # rest"
    by blast
  moreover have
    "hd (fst (inviteCollaborator all_resolve ''c9'' ''2024-01-02'' None ''l1'' u1 invite_bob))
       = Db (ListCollaboratorsCreate
               \<lparr> collab_id = ''c9'', collab_listId = ''l1'', collab_userId = ''u1'',
                 userEmail = ''bob@example.com'', userDisplayName = ''bob'', role = Editor,
                 status = ''pending'', invitedBy = ''u1'', joinedAt = ''2024-01-02'' \<rparr>)"
    using t
    by (simp add: inviteCollaborator_def invite_bob_def u1_def all_resolve_def
          loadCollaborators_def split_at_sign_0_def Let_def)
  ultimately show ?thesis using a b by blast
qed

end
